theory Spec2Isabelle
  imports Complex_Main
begin

section \<open>Training sessions of \<open>lab7.py\<close>\<close>

text \<open>
  The module computes, for one training session, the distance, the mean speed and the
  spent calories, renders them in a summary line, and builds sessions from an activity
  code and a list of sensor values.

  Numbers. The methods are given twice. First Python's \<open>int\<close> and \<open>float\<close> values
  are embedded in \<^typ>\<open>real\<close> and the arithmetic is exact, with \<open>ZeroDivisionError\<close> as
  its one fault; this serves the claims that name the expression a method evaluates, the
  summary line and the dispatcher. Then, in the section on binary64, the methods are given
  over IEEE 754 doubles, with rounding, infinities, NaN and \<open>OverflowError\<close>; this serves
  the claim about the sign of the results.

  Text. A Python \<open>str\<close> is a sequence of Unicode code points, here a list of naturals.
  The module's labels are Cyrillic; they are written as code point lists.
\<close>

subsection \<open>Strings\<close>

type_synonym pystr = "nat list"

definition ascii :: "string \<Rightarrow> pystr" where
  "ascii s = map of_char s"

subsection \<open>Exceptions\<close>

text \<open>
  \<open>ZeroDivisionError\<close>: division by zero. \<open>TypeError\<close>: a constructor called with the
  wrong number of positional arguments. \<open>ValueError\<close>: raised by \<open>read_package\<close>, with its
  message. \<open>OverflowError\<close>: an \<open>int\<close> beyond the range of \<open>float\<close>, or a power that
  overflows; only the binary64 model below raises it.
\<close>

datatype error = ZeroDivisionError | TypeError | ValueError pystr | OverflowError

definition bind_err :: "error + 'a \<Rightarrow> ('a \<Rightarrow> error + 'b) \<Rightarrow> error + 'b" where
  "bind_err m f = (case m of Inl e \<Rightarrow> Inl e | Inr v \<Rightarrow> f v)"

text \<open>Python's \<open>x / y\<close>.\<close>

definition truediv :: "real \<Rightarrow> real \<Rightarrow> error + real" where
  "truediv x y = (if y = 0 then Inl ZeroDivisionError else Inr (x / y))"

subsection \<open>The classes\<close>

text \<open>
  \<open>Training\<close> is abstract; its three subclasses are the constructors. The fields
  \<open>action\<close>, \<open>duration\<close>, \<open>weight\<close> are those of \<open>Training.__init__\<close>; \<open>SportsWalking\<close> adds
  \<open>height\<close>, \<open>Swimming\<close> adds \<open>pool_length\<close> and \<open>pool_count\<close>.
\<close>

datatype training =
    Running (action: real) (duration: real) (weight: real)
  | SportsWalking (action: real) (duration: real) (weight: real) (height: real)
  | Swimming (action: real) (duration: real) (weight: real)
      (pool_length: real) (pool_count: real)

text \<open>\<open>self.__class__.__name__\<close>\<close>

fun class_name :: "training \<Rightarrow> pystr" where
  "class_name (Running a d w) = ascii ''Running''"
| "class_name (SportsWalking a d w h) = ascii ''SportsWalking''"
| "class_name (Swimming a d w pl pc) = ascii ''Swimming''"

text \<open>Class constants.\<close>

definition Running_CALORIES_MEAN_SPEED_MULTIPLIER :: real where
  "Running_CALORIES_MEAN_SPEED_MULTIPLIER = 18"

definition Running_CALORIES_MEAN_SPEED_SHIFT :: real where
  "Running_CALORIES_MEAN_SPEED_SHIFT = 1.79"

definition Running_LEN_STEP :: real where
  "Running_LEN_STEP = 0.65"

definition SportsWalking_CALORIES_WEIGHT_MULTIPLIER :: real where
  "SportsWalking_CALORIES_WEIGHT_MULTIPLIER = 0.035"

definition SportsWalking_CALORIES_SPEED_HEIGHT_MULTIPLIER :: real where
  "SportsWalking_CALORIES_SPEED_HEIGHT_MULTIPLIER = 0.029"

definition SportsWalking_LEN_STEP :: real where
  "SportsWalking_LEN_STEP = 0.65"

definition Swimming_LEN_STEP :: real where
  "Swimming_LEN_STEP = 1.38"

definition Swimming_CALORIES_SWIM_MULTIPLIER :: real where
  "Swimming_CALORIES_SWIM_MULTIPLIER = 1.1"

definition Swimming_CALORIES_SWIM_SHIFT :: real where
  "Swimming_CALORIES_SWIM_SHIFT = 2"

text \<open>\<open>get_distance\<close>: \<open>self.action * self.LEN_STEP / 1000\<close> in each class.\<close>

fun get_distance :: "training \<Rightarrow> real" where
  "get_distance (Running a d w) = a * Running_LEN_STEP / 1000"
| "get_distance (SportsWalking a d w h) = a * SportsWalking_LEN_STEP / 1000"
| "get_distance (Swimming a d w pl pc) = a * Swimming_LEN_STEP / 1000"

text \<open>\<open>get_mean_speed\<close>: \<open>self.get_distance() / self.duration\<close> in each class.\<close>

fun get_mean_speed :: "training \<Rightarrow> error + real" where
  "get_mean_speed (Running a d w) = truediv (get_distance (Running a d w)) d"
| "get_mean_speed (SportsWalking a d w h) =
     truediv (get_distance (SportsWalking a d w h)) d"
| "get_mean_speed (Swimming a d w pl pc) =
     truediv (get_distance (Swimming a d w pl pc)) d"

text \<open>
  \<open>get_spent_calories\<close>: each class first calls \<open>get_mean_speed\<close>; \<open>SportsWalking\<close> then
  divides by \<open>self.height\<close>.
\<close>

fun get_spent_calories :: "training \<Rightarrow> error + real" where
  "get_spent_calories (Running a d w) =
     bind_err (get_mean_speed (Running a d w)) (\<lambda>mean_speed.
       Inr ((Running_CALORIES_MEAN_SPEED_MULTIPLIER * mean_speed
             + Running_CALORIES_MEAN_SPEED_SHIFT) * w * d))"
| "get_spent_calories (SportsWalking a d w h) =
     bind_err (get_mean_speed (SportsWalking a d w h)) (\<lambda>mean_speed.
     bind_err (truediv (mean_speed ^ 2) h) (\<lambda>q.
       Inr ((SportsWalking_CALORIES_WEIGHT_MULTIPLIER * w
             + q * SportsWalking_CALORIES_SPEED_HEIGHT_MULTIPLIER * w)
            * d * 60)))"
| "get_spent_calories (Swimming a d w pl pc) =
     bind_err (get_mean_speed (Swimming a d w pl pc)) (\<lambda>mean_speed.
       Inr ((mean_speed + Swimming_CALORIES_SWIM_MULTIPLIER)
            * Swimming_CALORIES_SWIM_SHIFT * w * d))"

subsection \<open>The summary line\<close>

text \<open>
  Python's format specification \<open>.3f\<close> on an exact value: the value is rounded to three
  decimals, a tie going to the even neighbour; a minus sign precedes a negative value.
\<close>

definition round_half_even :: "real \<Rightarrow> int" where
  "round_half_even x =
     (let n = \<lfloor>x\<rfloor>; r = x - of_int n
      in if r < 1 / 2 then n
         else if 1 / 2 < r then n + 1
         else if even n then n else n + 1)"

fun str_nat :: "nat \<Rightarrow> pystr" where
  "str_nat n = (if n < 10 then [48 + n] else str_nat (n div 10) @ [48 + n mod 10])"

declare str_nat.simps [simp del]

definition format_3f :: "real \<Rightarrow> pystr" where
  "format_3f x =
     (let q = nat (round_half_even (\<bar>x\<bar> * 1000))
      in (if x < 0 then ascii ''-'' else [])
         @ str_nat (q div 1000) @ ascii ''.''
         @ [48 + q div 100 mod 10, 48 + q div 10 mod 10, 48 + q mod 10])"

text \<open>
  The labels of \<open>show_training_info\<close>, as code points. In Latin transliteration:
  "Tip trenirovki: ", "Dlitel'nost': ", " ch; ", "Distantsiya: ", " km; ",
  "Sr. skorost': ", " km/ch; ", "Potracheno kkal: ".
\<close>

definition label_type :: pystr where
  "label_type = [1058, 1080, 1087, 32, 1090, 1088, 1077, 1085, 1080, 1088, 1086, 1074,
     1082, 1080, 58, 32]"

definition label_duration :: pystr where
  "label_duration = [1044, 1083, 1080, 1090, 1077, 1083, 1100, 1085, 1086, 1089, 1090,
     1100, 58, 32]"

definition unit_hours :: pystr where
  "unit_hours = [32, 1095, 59, 32]"

definition label_distance :: pystr where
  "label_distance = [1044, 1080, 1089, 1090, 1072, 1085, 1094, 1080, 1103, 58, 32]"

definition unit_km :: pystr where
  "unit_km = [32, 1082, 1084, 59, 32]"

definition label_speed :: pystr where
  "label_speed = [1057, 1088, 46, 32, 1089, 1082, 1086, 1088, 1086, 1089, 1090, 1100,
     58, 32]"

definition unit_kmh :: pystr where
  "unit_kmh = [32, 1082, 1084, 47, 1095, 59, 32]"

definition label_calories :: pystr where
  "label_calories = [1055, 1086, 1090, 1088, 1072, 1095, 1077, 1085, 1086, 32, 1082,
     1082, 1072, 1083, 58, 32]"

text \<open>The f-string of \<open>show_training_info\<close>, its five replacement fields as arguments.\<close>

definition summary_line :: "pystr \<Rightarrow> pystr \<Rightarrow> pystr \<Rightarrow> pystr \<Rightarrow> pystr \<Rightarrow> pystr" where
  "summary_line cname dur dst spd cal =
     label_type @ cname @ ascii ''; ''
     @ label_duration @ dur @ unit_hours
     @ label_distance @ dst @ unit_km
     @ label_speed @ spd @ unit_kmh
     @ label_calories @ cal @ ascii ''.''"

text \<open>
  \<open>show_training_info\<close> evaluates its fields from left to right: the class name, the
  duration, \<open>get_distance()\<close>, \<open>get_mean_speed()\<close>, \<open>get_spent_calories()\<close>.
\<close>

definition show_training_info :: "training \<Rightarrow> error + pystr" where
  "show_training_info t =
     bind_err (get_mean_speed t) (\<lambda>spd.
     bind_err (get_spent_calories t) (\<lambda>cal.
       Inr (summary_line (class_name t) (format_3f (duration t))
              (format_3f (get_distance t)) (format_3f spd) (format_3f cal))))"

subsection \<open>The dispatcher\<close>

text \<open>
  A class called with \<open>*data\<close>: the list must have as many elements as \<open>__init__\<close> has
  parameters after \<open>self\<close>, else Python raises \<open>TypeError\<close> before any object exists.
\<close>

fun Running_init :: "real list \<Rightarrow> error + training" where
  "Running_init [a, d, w] = Inr (Running a d w)"
| "Running_init _ = Inl TypeError"

fun SportsWalking_init :: "real list \<Rightarrow> error + training" where
  "SportsWalking_init [a, d, w, h] = Inr (SportsWalking a d w h)"
| "SportsWalking_init _ = Inl TypeError"

fun Swimming_init :: "real list \<Rightarrow> error + training" where
  "Swimming_init [a, d, w, pl, pc] = Inr (Swimming a d w pl pc)"
| "Swimming_init _ = Inl TypeError"

text \<open>The message of the \<open>ValueError\<close>: "Neizvestnyi tip trenirovki".\<close>

definition unknown_type_message :: pystr where
  "unknown_type_message = [1053, 1077, 1080, 1079, 1074, 1077, 1089, 1090, 1085, 1099,
     1081, 32, 1090, 1080, 1087, 32, 1090, 1088, 1077, 1085, 1080, 1088, 1086, 1074,
     1082, 1080]"

definition workout_types :: "pystr \<rightharpoonup> (real list \<Rightarrow> error + training)" where
  "workout_types =
     [ascii ''RUN'' \<mapsto> Running_init,
      ascii ''WLK'' \<mapsto> SportsWalking_init,
      ascii ''SWM'' \<mapsto> Swimming_init]"

definition read_package :: "pystr \<Rightarrow> real list \<Rightarrow> error + training" where
  "read_package workout_type data =
     (case workout_types workout_type of
        Some cls \<Rightarrow> cls data
      | None \<Rightarrow> Inl (ValueError unknown_type_message))"

text \<open>
  The summary as the specification words it, with English labels:
  \<open>"Training type: {TypeName}; Duration: {duration:.3f} h; Distance: {distance:.3f} km;
  Mean speed: {speed:.3f} km/h; Calories burned: {calories:.3f}."\<close>, its five fields as
  arguments. It follows the specification, not the source, and is only compared with
  \<open>summary_line\<close>.
\<close>

definition spec_summary_line :: "pystr \<Rightarrow> pystr \<Rightarrow> pystr \<Rightarrow> pystr \<Rightarrow> pystr \<Rightarrow> pystr" where
  "spec_summary_line cname dur dst spd cal =
     ascii ''Training type: '' @ cname @ ascii ''; ''
     @ ascii ''Duration: '' @ dur @ ascii '' h; ''
     @ ascii ''Distance: '' @ dst @ ascii '' km; ''
     @ ascii ''Mean speed: '' @ spd @ ascii '' km/h; ''
     @ ascii ''Calories burned: '' @ cal @ ascii ''.''"

section \<open>Binary64 arithmetic\<close>

text \<open>
  Python's \<open>float\<close> is the IEEE 754 binary64 format. The definitions above compute with
  exact reals, which is enough wherever a claim names the very expression the code
  evaluates. A claim about the range of the results needs the arithmetic itself: a
  quotient may overflow to infinity, infinity times zero is NaN, and \<open>**\<close> raises
  \<open>OverflowError\<close>. This section gives the three methods again, over binary64.

  A \<open>float\<close> is a finite value, an infinity or NaN. \<open>Finite x\<close> is a double when \<open>x\<close> is
  one of the values of the format; every operation below returns such values, and what is
  proved of all \<open>x\<close> holds of them. The sign of a zero is not kept: the module never
  divides by a zero without raising, and \<open>-0.0 >= 0\<close> holds in Python as \<open>0.0 >= 0\<close>
  does, so no result below depends on it.
\<close>

datatype float64 = Finite real | PInf | NInf | NaN

text \<open>
  Rounding to nearest, ties to even. For \<open>x > 0\<close>, \<open>exponent x\<close> is the \<open>e\<close> with
  \<open>2^e \<le> x < 2^(e+1)\<close>, kept within \<open>-1022 .. 1023\<close>: \<open>exp_up\<close> halves a value of at
  least 1, \<open>exp_down\<close> doubles a value below 1. The doubles around \<open>x\<close> are the multiples
  of \<open>quantum x = 2^(e-52)\<close>; below \<open>2^-1022\<close> they are the subnormal multiples of
  \<open>2^-1074\<close>. A rounded magnitude of \<open>2^1024\<close> or more is an overflow.
\<close>

function exp_up :: "int \<Rightarrow> real \<Rightarrow> int" where
  "exp_up e x = (if e < 1023 \<and> 2 \<le> x then exp_up (e + 1) (x / 2) else e)"
  by pat_completeness auto
termination
  by (relation "measure (\<lambda>(e, x). nat (1023 - e))") auto

function exp_down :: "int \<Rightarrow> real \<Rightarrow> int" where
  "exp_down e x = (if - 1022 < e \<and> x < 1 then exp_down (e - 1) (x * 2) else e)"
  by pat_completeness auto
termination
  by (relation "measure (\<lambda>(e, x). nat (e + 1022))") auto

declare exp_up.simps [simp del] exp_down.simps [simp del]

definition exponent :: "real \<Rightarrow> int" where
  "exponent x = (if 1 \<le> x then exp_up 0 x else exp_down 0 x)"

definition pow2 :: "int \<Rightarrow> real" where
  "pow2 k = (if 0 \<le> k then 2 ^ nat k else 1 / 2 ^ nat (- k))"

definition quantum :: "real \<Rightarrow> real" where
  "quantum x = pow2 (exponent \<bar>x\<bar> - 52)"

definition round_finite :: "real \<Rightarrow> real" where
  "round_finite x =
     (if x = 0 then 0
      else sgn x * of_int (round_half_even (\<bar>x\<bar> / quantum x)) * quantum x)"

text \<open>
  \<open>fl x\<close> is the \<open>float\<close> that an operation with the exact result \<open>x\<close> delivers; it is
  also the value of a literal (\<open>0.65\<close> is \<open>fl 0.65\<close>) and of an \<open>int\<close> operand of a
  literal (\<open>1000\<close> is \<open>fl 1000\<close>).
\<close>

definition fl :: "real \<Rightarrow> float64" where
  "fl x =
     (let y = round_finite x
      in if 2 ^ 1024 \<le> \<bar>y\<bar> then (if 0 < y then PInf else NInf) else Finite y)"

text \<open>
  The operations \<open>*\<close>, \<open>+\<close> and \<open>/\<close> on two floats. They never raise on overflow; an
  infinite operand gives an infinity or, for \<open>inf * 0\<close>, \<open>inf - inf\<close> and \<open>inf / inf\<close>,
  NaN. \<open>f64_div\<close> is the quotient for a divisor that is not zero.
\<close>

fun f64_sgn :: "float64 \<Rightarrow> real" where
  "f64_sgn (Finite x) = sgn x"
| "f64_sgn PInf = 1"
| "f64_sgn NInf = - 1"
| "f64_sgn NaN = 0"

definition inf_with_sign :: "real \<Rightarrow> float64" where
  "inf_with_sign s = (if s < 0 then NInf else PInf)"

fun f64_mul :: "float64 \<Rightarrow> float64 \<Rightarrow> float64" where
  "f64_mul NaN b = NaN"
| "f64_mul a NaN = NaN"
| "f64_mul (Finite x) (Finite y) = fl (x * y)"
| "f64_mul a b =
     (if f64_sgn a * f64_sgn b = 0 then NaN else inf_with_sign (f64_sgn a * f64_sgn b))"

fun f64_add :: "float64 \<Rightarrow> float64 \<Rightarrow> float64" where
  "f64_add NaN b = NaN"
| "f64_add a NaN = NaN"
| "f64_add (Finite x) (Finite y) = fl (x + y)"
| "f64_add (Finite x) b = b"
| "f64_add a (Finite y) = a"
| "f64_add a b = (if a = b then a else NaN)"

fun f64_div :: "float64 \<Rightarrow> float64 \<Rightarrow> float64" where
  "f64_div NaN b = NaN"
| "f64_div a NaN = NaN"
| "f64_div (Finite x) (Finite y) = fl (x / y)"
| "f64_div (Finite x) b = Finite 0"
| "f64_div a (Finite y) = inf_with_sign (f64_sgn a * sgn y)"
| "f64_div a b = NaN"

text \<open>Python's \<open>x / y\<close> on floats: a zero divisor raises.\<close>

definition f64_truediv :: "float64 \<Rightarrow> float64 \<Rightarrow> error + float64" where
  "f64_truediv a b = (if b = Finite 0 then Inl ZeroDivisionError else Inr (f64_div a b))"

text \<open>
  Python's \<open>x ** 2\<close> on a float: NaN stays NaN, an infinity gives \<open>inf\<close>, and a finite
  square beyond the range raises \<open>OverflowError\<close>. The finite square is taken as the
  rounded product.
\<close>

fun f64_square :: "float64 \<Rightarrow> error + float64" where
  "f64_square NaN = Inr NaN"
| "f64_square PInf = Inr PInf"
| "f64_square NInf = Inr PInf"
| "f64_square (Finite x) =
     (case fl (x * x) of Finite y \<Rightarrow> Inr (Finite y) | _ \<Rightarrow> Inl OverflowError)"

text \<open>
  A sensor value is an \<open>int\<close> or a \<open>float\<close>. Every operation of the module has a float
  operand, so Python converts the other one to \<open>float\<close> first; an \<open>int\<close> beyond the range
  raises \<open>OverflowError\<close>.
\<close>

datatype pynum = PyInt int | PyFloat float64

fun to_float :: "pynum \<Rightarrow> error + float64" where
  "to_float (PyFloat f) = Inr f"
| "to_float (PyInt i) =
     (case fl (of_int i) of Finite y \<Rightarrow> Inr (Finite y) | _ \<Rightarrow> Inl OverflowError)"

text \<open>The comparisons \<open>v >= 0\<close> and \<open>v > 0\<close>; both are false of NaN.\<close>

fun f64_ge0 :: "float64 \<Rightarrow> bool" where
  "f64_ge0 (Finite x) = (0 \<le> x)"
| "f64_ge0 PInf = True"
| "f64_ge0 NInf = False"
| "f64_ge0 NaN = False"

fun f64_gt0 :: "float64 \<Rightarrow> bool" where
  "f64_gt0 (Finite x) = (0 < x)"
| "f64_gt0 PInf = True"
| "f64_gt0 NInf = False"
| "f64_gt0 NaN = False"

fun num_ge0 :: "pynum \<Rightarrow> bool" where
  "num_ge0 (PyInt i) = (0 \<le> i)"
| "num_ge0 (PyFloat f) = f64_ge0 f"

fun num_gt0 :: "pynum \<Rightarrow> bool" where
  "num_gt0 (PyInt i) = (0 < i)"
| "num_gt0 (PyFloat f) = f64_gt0 f"

text \<open>The three classes with their fields as Python numbers.\<close>

datatype training64 =
    Running64 (action64: pynum) (duration64: pynum) (weight64: pynum)
  | SportsWalking64 (action64: pynum) (duration64: pynum) (weight64: pynum)
      (height64: pynum)
  | Swimming64 (action64: pynum) (duration64: pynum) (weight64: pynum)
      (pool_length64: pynum) (pool_count64: pynum)

text \<open>\<open>get_distance\<close>: \<open>self.action * self.LEN_STEP / 1000\<close>.\<close>

fun get_distance64 :: "training64 \<Rightarrow> error + float64" where
  "get_distance64 (Running64 a d w) =
     bind_err (to_float a) (\<lambda>x.
       f64_truediv (f64_mul x (fl Running_LEN_STEP)) (fl 1000))"
| "get_distance64 (SportsWalking64 a d w h) =
     bind_err (to_float a) (\<lambda>x.
       f64_truediv (f64_mul x (fl SportsWalking_LEN_STEP)) (fl 1000))"
| "get_distance64 (Swimming64 a d w pl pc) =
     bind_err (to_float a) (\<lambda>x.
       f64_truediv (f64_mul x (fl Swimming_LEN_STEP)) (fl 1000))"

text \<open>\<open>get_mean_speed\<close>: \<open>self.get_distance() / self.duration\<close>.\<close>

fun get_mean_speed64 :: "training64 \<Rightarrow> error + float64" where
  "get_mean_speed64 (Running64 a d w) =
     bind_err (get_distance64 (Running64 a d w)) (\<lambda>dst.
     bind_err (to_float d) (\<lambda>y. f64_truediv dst y))"
| "get_mean_speed64 (SportsWalking64 a d w h) =
     bind_err (get_distance64 (SportsWalking64 a d w h)) (\<lambda>dst.
     bind_err (to_float d) (\<lambda>y. f64_truediv dst y))"
| "get_mean_speed64 (Swimming64 a d w pl pc) =
     bind_err (get_distance64 (Swimming64 a d w pl pc)) (\<lambda>dst.
     bind_err (to_float d) (\<lambda>y. f64_truediv dst y))"

text \<open>
  \<open>get_spent_calories\<close>, operation by operation in Python's order of evaluation:
  \<open>(18 * mean_speed + 1.79) * weight * duration\<close>,
  \<open>(0.035 * weight + (mean_speed ** 2 / height) * 0.029 * weight) * duration * 60\<close> and
  \<open>(mean_speed + 1.1) * 2 * weight * duration\<close>.
\<close>

fun get_spent_calories64 :: "training64 \<Rightarrow> error + float64" where
  "get_spent_calories64 (Running64 a d w) =
     bind_err (get_mean_speed64 (Running64 a d w)) (\<lambda>mean_speed.
     bind_err (to_float w) (\<lambda>wf.
     bind_err (to_float d) (\<lambda>df.
       Inr (f64_mul
              (f64_mul
                 (f64_add (f64_mul (fl Running_CALORIES_MEAN_SPEED_MULTIPLIER) mean_speed)
                    (fl Running_CALORIES_MEAN_SPEED_SHIFT))
                 wf)
              df))))"
| "get_spent_calories64 (SportsWalking64 a d w h) =
     bind_err (get_mean_speed64 (SportsWalking64 a d w h)) (\<lambda>mean_speed.
     bind_err (to_float w) (\<lambda>wf.
     bind_err (f64_square mean_speed) (\<lambda>sq.
     bind_err (to_float h) (\<lambda>hf.
     bind_err (f64_truediv sq hf) (\<lambda>q.
     bind_err (to_float d) (\<lambda>df.
       Inr (f64_mul
              (f64_mul
                 (f64_add (f64_mul (fl SportsWalking_CALORIES_WEIGHT_MULTIPLIER) wf)
                    (f64_mul
                       (f64_mul q (fl SportsWalking_CALORIES_SPEED_HEIGHT_MULTIPLIER))
                       wf))
                 df)
              (fl 60))))))))"
| "get_spent_calories64 (Swimming64 a d w pl pc) =
     bind_err (get_mean_speed64 (Swimming64 a d w pl pc)) (\<lambda>mean_speed.
     bind_err (to_float w) (\<lambda>wf.
     bind_err (to_float d) (\<lambda>df.
       Inr (f64_mul
              (f64_mul
                 (f64_mul (f64_add mean_speed (fl Swimming_CALORIES_SWIM_MULTIPLIER))
                    (fl Swimming_CALORIES_SWIM_SHIFT))
                 wf)
              df))))"

text \<open>
  What a result can be: \<open>not_negative\<close> is a nonnegative value, \<open>inf\<close> or NaN;
  \<open>overflow_or P\<close> is a returned float with \<open>P\<close>, or \<open>OverflowError\<close> and no other
  exception.
\<close>

fun not_negative :: "float64 \<Rightarrow> bool" where
  "not_negative (Finite x) = (0 \<le> x)"
| "not_negative PInf = True"
| "not_negative NInf = False"
| "not_negative NaN = True"

definition overflow_or :: "(float64 \<Rightarrow> bool) \<Rightarrow> error + float64 \<Rightarrow> bool" where
  "overflow_or P r = (case r of Inl e \<Rightarrow> e = OverflowError | Inr v \<Rightarrow> P v)"

section \<open>Evaluation lemmas\<close>

lemmas class_constants =
  Running_CALORIES_MEAN_SPEED_MULTIPLIER_def Running_CALORIES_MEAN_SPEED_SHIFT_def
  Running_LEN_STEP_def SportsWalking_CALORIES_WEIGHT_MULTIPLIER_def
  SportsWalking_CALORIES_SPEED_HEIGHT_MULTIPLIER_def SportsWalking_LEN_STEP_def
  Swimming_LEN_STEP_def Swimming_CALORIES_SWIM_MULTIPLIER_def
  Swimming_CALORIES_SWIM_SHIFT_def

lemma str_nat_digit: "n < 10 \<Longrightarrow> str_nat n = [48 + n]"
  by (simp add: str_nat.simps)

lemma str_nat_step: "10 \<le> n \<Longrightarrow> str_nat n = str_nat (n div 10) @ [48 + n mod 10]"
  by (subst str_nat.simps) simp

lemmas format_3f_eval = format_3f_def round_half_even_def Let_def ascii_def
  str_nat_digit str_nat_step

lemma format_3f_one: "format_3f 1 = ascii ''1.000''"
  by (simp add: format_3f_eval)

lemma format_3f_run_distance: "format_3f 9.75 = ascii ''9.750''"
  by (simp add: format_3f_eval)

lemma format_3f_run_calories: "format_3f 13296.75 = ascii ''13296.750''"
  by (simp add: format_3f_eval)

lemma workout_types_eval:
  "workout_types (ascii ''RUN'') = Some Running_init"
  "workout_types (ascii ''WLK'') = Some SportsWalking_init"
  "workout_types (ascii ''SWM'') = Some Swimming_init"
  by (simp_all add: workout_types_def ascii_def)

lemma workout_types_None:
  "wt \<notin> {ascii ''RUN'', ascii ''WLK'', ascii ''SWM''} \<Longrightarrow> workout_types wt = None"
  by (simp add: workout_types_def)

lemma read_package_run: "read_package (ascii ''RUN'') [a, d, w] = Inr (Running a d w)"
  by (simp add: read_package_def workout_types_eval)

lemma run_fields:
  "show_training_info (Running 15000 1 75) =
     Inr (summary_line (ascii ''Running'') (format_3f 1) (format_3f 9.75)
            (format_3f 9.75) (format_3f 13296.75))"
  by (simp add: show_training_info_def bind_err_def truediv_def class_constants)

lemma run_summary:
  "bind_err (read_package (ascii ''RUN'') [15000, 1, 75]) show_training_info =
     Inr (summary_line (ascii ''Running'') (ascii ''1.000'') (ascii ''9.750'')
            (ascii ''9.750'') (ascii ''13296.750''))"
proof -
  have "bind_err (read_package (ascii ''RUN'') [15000, 1, 75]) show_training_info =
      show_training_info (Running 15000 1 75)"
    unfolding read_package_run by (simp add: bind_err_def)
  also have "\<dots> = Inr (summary_line (ascii ''Running'') (ascii ''1.000'')
      (ascii ''9.750'') (ascii ''9.750'') (ascii ''13296.750''))"
    unfolding run_fields format_3f_one format_3f_run_distance format_3f_run_calories ..
  finally show ?thesis .
qed

lemma Running_init_arity: "length data \<noteq> 3 \<Longrightarrow> Running_init data = Inl TypeError"
  by (cases data rule: Running_init.cases) simp_all

lemma SportsWalking_init_arity:
  "length data \<noteq> 4 \<Longrightarrow> SportsWalking_init data = Inl TypeError"
  by (cases data rule: SportsWalking_init.cases) simp_all

lemma Swimming_init_arity: "length data \<noteq> 5 \<Longrightarrow> Swimming_init data = Inl TypeError"
  by (cases data rule: Swimming_init.cases) simp_all

section \<open>Lemmas on binary64\<close>

subsection \<open>Evaluation\<close>

lemma exp_up_step: "e < 1023 \<Longrightarrow> 2 \<le> x \<Longrightarrow> exp_up e x = exp_up (e + 1) (x / 2)"
  by (subst exp_up.simps) simp

lemma exp_up_stop: "\<not> (e < 1023 \<and> 2 \<le> x) \<Longrightarrow> exp_up e x = e"
  by (subst exp_up.simps) auto

lemma exp_down_step: "- 1022 < e \<Longrightarrow> x < 1 \<Longrightarrow> exp_down e x = exp_down (e - 1) (x * 2)"
  by (subst exp_down.simps) simp

lemma exp_down_stop: "\<not> (- 1022 < e \<and> x < 1) \<Longrightarrow> exp_down e x = e"
  by (subst exp_down.simps) auto

lemmas fl_eval = fl_def round_finite_def quantum_def exponent_def pow2_def Let_def
  round_half_even_def exp_up_step exp_up_stop exp_down_step exp_down_stop

subsection \<open>The rounding\<close>

text \<open>
  \<open>exponent\<close> is the binary exponent in the normal range and \<open>-1022\<close> below it, the
  rounded value is within half a quantum of the exact one, and a value of \<open>2^1024\<close> or
  more overflows.
\<close>

lemma pow2_pos: "0 < pow2 k"
  by (simp add: pow2_def)

lemma pow2_powi: "pow2 k = 2 powi k"
  by (simp add: pow2_def power_int_def power_one_over)

lemma pow2_add1: "pow2 (k + 1) = 2 * pow2 k"
  by (simp add: pow2_powi power_int_add_1)

lemma pow2_sub1: "pow2 (k - 1) = pow2 k / 2"
  using pow2_add1 [of "k - 1"] by simp

lemma pow2_mono: "j \<le> k \<Longrightarrow> pow2 j \<le> pow2 k"
  by (simp add: pow2_powi power_int_increasing)

lemma exp_up_ge: "e \<le> exp_up e x"
  by (induction e x rule: exp_up.induct) (subst exp_up.simps, auto)

lemma exp_up_le: "1 \<le> x \<Longrightarrow> pow2 (exp_up e x - e) \<le> x"
proof (induction e x rule: exp_up.induct)
  case (1 e x)
  show ?case
  proof (cases "e < 1023 \<and> 2 \<le> x")
    case True
    then have "pow2 (exp_up (e + 1) (x / 2) - (e + 1)) \<le> x / 2"
      using 1 by simp
    moreover have "exp_up e x = exp_up (e + 1) (x / 2)"
      using True by (simp add: exp_up_step)
    moreover have "pow2 (exp_up (e + 1) (x / 2) - e) = 2 * pow2 (exp_up (e + 1) (x / 2) - (e + 1))"
      using pow2_add1 [of "exp_up (e + 1) (x / 2) - (e + 1)"] by simp
    ultimately show ?thesis by simp
  next
    case False
    then have "exp_up e x = e" by (simp add: exp_up_stop)
    with 1 show ?thesis by (simp add: pow2_def)
  qed
qed

lemma exp_up_less:
  "x < pow2 (1024 - e) \<Longrightarrow> x < pow2 (exp_up e x - e + 1)"
proof (induction e x rule: exp_up.induct)
  case (1 e x)
  show ?case
  proof (cases "e < 1023 \<and> 2 \<le> x")
    case True
    have "x / 2 < pow2 (1024 - (e + 1))"
      using 1(2) pow2_sub1 [of "1024 - e"] by (simp add: algebra_simps)
    with True 1(1) have "x / 2 < pow2 (exp_up (e + 1) (x / 2) - (e + 1) + 1)"
      by simp
    moreover have "exp_up e x = exp_up (e + 1) (x / 2)"
      using True by (simp add: exp_up_step)
    moreover have "pow2 (exp_up (e + 1) (x / 2) - e + 1) =
        2 * pow2 (exp_up (e + 1) (x / 2) - (e + 1) + 1)"
      using pow2_add1 [of "exp_up (e + 1) (x / 2) - (e + 1) + 1"]
      by (simp add: algebra_simps)
    ultimately show ?thesis by simp
  next
    case False
    then have r: "exp_up e x = e" by (simp add: exp_up_stop)
    show ?thesis
    proof (cases "2 \<le> x")
      case True
      with False have "1023 \<le> e" by simp
      then have "pow2 (1024 - e) \<le> pow2 1" by (intro pow2_mono) simp
      with 1(2) r show ?thesis by simp
    next
      case False
      with r show ?thesis by (simp add: pow2_def)
    qed
  qed
qed

lemma exp_up_top: "e \<le> 1023 \<Longrightarrow> pow2 (1023 - e) \<le> x \<Longrightarrow> exp_up e x = 1023"
proof (induction e x rule: exp_up.induct)
  case (1 e x)
  show ?case
  proof (cases "e < 1023 \<and> 2 \<le> x")
    case True
    have "pow2 (1023 - (e + 1)) \<le> x / 2"
      using 1(3) pow2_sub1 [of "1023 - e"] by (simp add: algebra_simps)
    with True 1(1) have "exp_up (e + 1) (x / 2) = 1023" by simp
    with True show ?thesis by (simp add: exp_up_step)
  next
    case False
    then have r: "exp_up e x = e" by (simp add: exp_up_stop)
    show ?thesis
    proof (cases "e < 1023")
      case True
      then have "pow2 1 \<le> pow2 (1023 - e)" by (intro pow2_mono) simp
      with 1(3) have "2 \<le> x" by (simp add: pow2_def)
      with True False show ?thesis by simp
    next
      case False
      with 1(2) r show ?thesis by simp
    qed
  qed
qed

lemma exp_down_bounds:
  "x < 2 \<Longrightarrow> pow2 (- 1022 - e) \<le> x \<Longrightarrow>
   pow2 (exp_down e x - e) \<le> x \<and> x < pow2 (exp_down e x - e + 1)"
proof (induction e x rule: exp_down.induct)
  case (1 e x)
  show ?case
  proof (cases "- 1022 < e \<and> x < 1")
    case True
    let ?r = "exp_down (e - 1) (x * 2)"
    have "pow2 (- 1022 - (e - 1)) \<le> x * 2"
      using 1(3) pow2_add1 [of "- 1022 - e"] by (simp add: algebra_simps)
    with True 1(1) have ih: "pow2 (?r - (e - 1)) \<le> x * 2 \<and> x * 2 < pow2 (?r - (e - 1) + 1)"
      by simp
    have eq: "exp_down e x = ?r"
      using True by (simp add: exp_down_step)
    have "pow2 (?r - (e - 1)) = 2 * pow2 (?r - e)"
      using pow2_add1 [of "?r - e"] by (simp add: algebra_simps)
    moreover have "pow2 (?r - (e - 1) + 1) = 2 * pow2 (?r - e + 1)"
      using pow2_add1 [of "?r - e + 1"] by (simp add: algebra_simps)
    ultimately show ?thesis using ih eq by simp
  next
    case False
    then have r: "exp_down e x = e" by (simp add: exp_down_stop)
    show ?thesis
    proof (cases "x < 1")
      case True
      with False have "e \<le> - 1022" by simp
      then have "pow2 0 \<le> pow2 (- 1022 - e)" by (intro pow2_mono) simp
      with 1(3) True show ?thesis by (simp add: pow2_def)
    next
      case False
      with r 1(2) show ?thesis by (simp add: pow2_def)
    qed
  qed
qed

lemma exp_down_subnormal:
  "- 1022 \<le> e \<Longrightarrow> x < pow2 (- 1022 - e) \<Longrightarrow> exp_down e x = - 1022"
proof (induction e x rule: exp_down.induct)
  case (1 e x)
  show ?case
  proof (cases "- 1022 < e \<and> x < 1")
    case True
    have "x * 2 < pow2 (- 1022 - (e - 1))"
      using 1(3) pow2_add1 [of "- 1022 - e"] by (simp add: algebra_simps)
    with True 1(1) have "exp_down (e - 1) (x * 2) = - 1022" by simp
    with True show ?thesis by (simp add: exp_down_step)
  next
    case False
    then have r: "exp_down e x = e" by (simp add: exp_down_stop)
    show ?thesis
    proof (cases "x < 1")
      case True
      with False 1(2) r show ?thesis by simp
    next
      case False
      have "pow2 (- 1022 - e) \<le> pow2 0" using 1(2) by (intro pow2_mono) simp
      with False 1(3) show ?thesis by (simp add: pow2_def)
    qed
  qed
qed

lemma exponent_normal:
  assumes "pow2 (- 1022) \<le> x" and "x < 2 ^ 1024"
  shows "pow2 (exponent x) \<le> x \<and> x < pow2 (exponent x + 1)"
proof (cases "1 \<le> x")
  case True
  have "x < pow2 (1024 - 0)" using assms(2) by (simp add: pow2_def)
  then have "x < pow2 (exp_up 0 x - 0 + 1)" by (rule exp_up_less)
  with True exp_up_le [OF True, of 0] show ?thesis by (simp add: exponent_def)
next
  case False
  then have "x < 2" by simp
  moreover have "pow2 (- 1022 - 0) \<le> x" using assms(1) by simp
  ultimately have "pow2 (exp_down 0 x - 0) \<le> x \<and> x < pow2 (exp_down 0 x - 0 + 1)"
    by (rule exp_down_bounds)
  with False show ?thesis by (simp add: exponent_def)
qed

lemma exponent_subnormal: "x < pow2 (- 1022) \<Longrightarrow> exponent x = - 1022"
proof -
  assume x: "x < pow2 (- 1022)"
  have "pow2 (- 1022) \<le> pow2 0" by (intro pow2_mono) simp
  with x have "\<not> 1 \<le> x" by (simp add: pow2_def)
  moreover have "exp_down 0 x = - 1022"
    using x by (intro exp_down_subnormal) simp_all
  ultimately show ?thesis by (simp add: exponent_def)
qed

lemma round_half_even_ge_floor: "\<lfloor>x\<rfloor> \<le> round_half_even x"
  by (simp add: round_half_even_def Let_def)

lemma round_half_even_error: "\<bar>of_int (round_half_even y) - y\<bar> \<le> 1 / 2"
  by (simp add: round_half_even_def Let_def)

lemma round_finite_error: "\<bar>round_finite x - x\<bar> \<le> quantum x / 2"
proof (cases "x = 0")
  case True
  then show ?thesis by (simp add: round_finite_def quantum_def pow2_pos less_imp_le)
next
  case False
  let ?q = "quantum x"
  let ?m = "real_of_int (round_half_even (\<bar>x\<bar> / ?q))"
  have q: "0 < ?q" by (simp add: quantum_def pow2_pos)
  have "\<bar>?m - \<bar>x\<bar> / ?q\<bar> \<le> 1 / 2" by (rule round_half_even_error)
  then have "\<bar>?m - \<bar>x\<bar> / ?q\<bar> * ?q \<le> 1 / 2 * ?q"
    using q by (intro mult_right_mono) simp_all
  moreover have "\<bar>?m - \<bar>x\<bar> / ?q\<bar> * ?q = \<bar>(?m - \<bar>x\<bar> / ?q) * ?q\<bar>"
    using q by (simp add: abs_mult)
  moreover have "(?m - \<bar>x\<bar> / ?q) * ?q = ?m * ?q - \<bar>x\<bar>"
    using q by (simp add: field_simps)
  ultimately have e: "\<bar>?m * ?q - \<bar>x\<bar>\<bar> \<le> ?q / 2" by simp
  have "round_finite x - x = sgn x * (?m * ?q - \<bar>x\<bar>)"
    using False by (simp add: round_finite_def algebra_simps sgn_if)
  then have "\<bar>round_finite x - x\<bar> = \<bar>?m * ?q - \<bar>x\<bar>\<bar>"
    using False by (simp add: abs_mult sgn_if)
  with e show ?thesis by simp
qed

lemma fl_overflow: "2 ^ 1024 \<le> x \<Longrightarrow> fl x = PInf"
proof -
  assume x: "2 ^ 1024 \<le> x"
  have "(1::real) \<le> 2 ^ 1024" by simp
  with x have x1: "1 \<le> x" by linarith
  have "pow2 (1023 - 0) \<le> x" using x by (simp add: pow2_def)
  then have "exp_up 0 x = 1023" by (intro exp_up_top) simp_all
  with x1 have q: "quantum x = 2 ^ 971" by (simp add: quantum_def exponent_def pow2_def)
  have "(2::real) ^ 1024 = 2 ^ 53 * 2 ^ 971" by (simp add: power_add [symmetric])
  with x have "2 ^ 53 \<le> x / 2 ^ 971" by (simp add: le_divide_eq)
  then have "2 ^ 53 \<le> \<lfloor>\<bar>x\<bar> / quantum x\<rfloor>" using x1 q by (simp add: le_floor_iff)
  then have "2 ^ 53 \<le> round_half_even (\<bar>x\<bar> / quantum x)"
    using round_half_even_ge_floor [of "\<bar>x\<bar> / quantum x"] by linarith
  then have "2 ^ 53 \<le> real_of_int (round_half_even (\<bar>x\<bar> / quantum x))"
    by (metis of_int_le_iff of_int_numeral of_int_power)
  then have "2 ^ 53 * 2 ^ 971 \<le> real_of_int (round_half_even (\<bar>x\<bar> / quantum x)) * 2 ^ 971"
    by (intro mult_right_mono) simp_all
  then have "2 ^ 1024 \<le> round_finite x"
    using x1 q by (simp add: round_finite_def power_add [symmetric])
  moreover have "(0::real) < 2 ^ 1024" by simp
  ultimately show ?thesis by (simp add: fl_def Let_def)
qed

subsection \<open>Signs\<close>

text \<open>
  Rounding keeps a nonnegative value nonnegative and an \<open>int\<close> of at least 1 positive;
  products, sums and quotients of floats that are not negative are not negative.
\<close>

lemma round_half_even_nonneg: "0 \<le> x \<Longrightarrow> 0 \<le> round_half_even x"
  using round_half_even_ge_floor [of x] by (simp add: order_trans [of 0 "\<lfloor>x\<rfloor>"])

lemma round_finite_nonneg: "0 \<le> x \<Longrightarrow> 0 \<le> round_finite x"
  by (simp add: round_finite_def round_half_even_nonneg pow2_pos quantum_def less_imp_le)

lemma fl_nonneg: "0 \<le> x \<Longrightarrow> f64_ge0 (fl x)"
  using round_finite_nonneg [of x] by (simp add: fl_def Let_def)

lemma quantum_le: "1 \<le> x \<Longrightarrow> quantum x \<le> x"
proof -
  assume x: "1 \<le> x"
  have "quantum x = pow2 (exp_up 0 x - 52)"
    using x by (simp add: quantum_def exponent_def)
  also have "\<dots> \<le> pow2 (exp_up 0 x - 0)"
    by (rule pow2_mono) simp
  also have "\<dots> \<le> x"
    using x by (rule exp_up_le)
  finally show ?thesis .
qed

lemma round_finite_pos: "1 \<le> x \<Longrightarrow> 0 < round_finite x"
proof -
  assume x: "1 \<le> x"
  have q: "0 < quantum x" by (simp add: quantum_def pow2_pos)
  have "1 \<le> x / quantum x"
    using quantum_le [OF x] q by (simp add: field_simps)
  then have "1 \<le> \<lfloor>\<bar>x\<bar> / quantum x\<rfloor>"
    using x by (simp add: le_floor_iff)
  then have "1 \<le> round_half_even (\<bar>x\<bar> / quantum x)"
    using round_half_even_ge_floor [of "\<bar>x\<bar> / quantum x"] by linarith
  then have "0 < real_of_int (round_half_even (\<bar>x\<bar> / quantum x))" by simp
  then show ?thesis
    using x q by (simp add: round_finite_def)
qed

lemma overflow_or_Inr: "P v \<Longrightarrow> overflow_or P (Inr v)"
  by (simp add: overflow_or_def)

lemma overflow_or_bind:
  "overflow_or P m \<Longrightarrow> (\<And>v. P v \<Longrightarrow> overflow_or Q (f v)) \<Longrightarrow>
   overflow_or Q (bind_err m f)"
  by (cases m) (simp_all add: overflow_or_def bind_err_def)

lemma overflow_or_mono:
  "overflow_or P r \<Longrightarrow> (\<And>v. P v \<Longrightarrow> Q v) \<Longrightarrow> overflow_or Q r"
  by (cases r) (simp_all add: overflow_or_def)

lemma to_float_int_pos:
  "0 < i \<Longrightarrow> overflow_or f64_gt0 (to_float (PyInt i))"
proof -
  assume "0 < i"
  then have "0 < round_finite (of_int i)"
    by (intro round_finite_pos) simp
  then show ?thesis
    by (simp add: overflow_or_def fl_def Let_def)
qed

lemma to_float_int_nonneg:
  "0 \<le> i \<Longrightarrow> overflow_or f64_ge0 (to_float (PyInt i))"
proof -
  assume "0 \<le> i"
  then have "0 \<le> round_finite (of_int i)"
    by (intro round_finite_nonneg) simp
  then show ?thesis
    by (simp add: overflow_or_def fl_def Let_def)
qed

lemma to_float_gt0: "num_gt0 n \<Longrightarrow> overflow_or f64_gt0 (to_float n)"
proof (cases n)
  case (PyInt i)
  assume "num_gt0 n"
  with PyInt show ?thesis using to_float_int_pos [of i] by simp
next
  case (PyFloat f)
  assume "num_gt0 n"
  with PyFloat show ?thesis by (simp add: overflow_or_def)
qed

lemma to_float_ge0: "num_ge0 n \<Longrightarrow> overflow_or f64_ge0 (to_float n)"
proof (cases n)
  case (PyInt i)
  assume "num_ge0 n"
  with PyInt show ?thesis using to_float_int_nonneg [of i] by simp
next
  case (PyFloat f)
  assume "num_ge0 n"
  with PyFloat show ?thesis by (simp add: overflow_or_def)
qed

lemma f64_ge0_not_negative: "f64_ge0 v \<Longrightarrow> not_negative v"
  by (cases v) simp_all

lemma f64_gt0_ge0: "f64_gt0 v \<Longrightarrow> f64_ge0 v"
  by (cases v) simp_all

lemma fl_not_negative: "0 \<le> x \<Longrightarrow> not_negative (fl x)"
  by (simp add: fl_nonneg f64_ge0_not_negative)

lemma to_float_not_negative:
  "num_ge0 n \<Longrightarrow> overflow_or not_negative (to_float n)"
  by (rule overflow_or_mono [OF to_float_ge0]) (simp_all add: f64_ge0_not_negative)

lemma to_float_pos_not_negative:
  "num_gt0 n \<Longrightarrow> overflow_or not_negative (to_float n)"
  by (rule overflow_or_mono [OF to_float_gt0]) (simp_all add: f64_gt0_ge0 f64_ge0_not_negative)

lemma f64_mul_not_negative:
  "not_negative a \<Longrightarrow> not_negative b \<Longrightarrow> not_negative (f64_mul a b)"
  by (cases a; cases b) (simp_all add: fl_not_negative inf_with_sign_def sgn_if)

lemma f64_add_not_negative:
  "not_negative a \<Longrightarrow> not_negative b \<Longrightarrow> not_negative (f64_add a b)"
  by (cases a; cases b) (simp_all add: fl_not_negative)

lemma f64_div_not_negative:
  "not_negative a \<Longrightarrow> not_negative b \<Longrightarrow> not_negative (f64_div a b)"
  by (cases a; cases b) (simp_all add: fl_not_negative inf_with_sign_def sgn_if)

lemma f64_square_not_negative: "overflow_or not_negative (f64_square v)"
proof (cases v)
  case (Finite x)
  have "not_negative (fl (x * x))" by (simp add: fl_not_negative)
  with Finite show ?thesis
    by (auto simp: overflow_or_def split: float64.splits)
qed (simp_all add: overflow_or_def)

lemma f64_mul_ge0:
  "f64_ge0 a \<Longrightarrow> 0 < c \<Longrightarrow> f64_ge0 (f64_mul a (Finite c))"
  by (cases a) (simp_all add: fl_nonneg inf_with_sign_def)

lemma f64_div_ge0:
  "f64_ge0 a \<Longrightarrow> 0 < c \<Longrightarrow> f64_ge0 (f64_div a (Finite c))"
  by (cases a) (simp_all add: fl_nonneg inf_with_sign_def)

lemma f64_truediv_ge0:
  "f64_ge0 a \<Longrightarrow> 0 < c \<Longrightarrow> overflow_or f64_ge0 (f64_truediv a (Finite c))"
  by (simp add: f64_truediv_def overflow_or_def f64_div_ge0)

lemma f64_truediv_not_negative:
  "not_negative a \<Longrightarrow> f64_gt0 b \<Longrightarrow> overflow_or not_negative (f64_truediv a b)"
proof -
  assume a: "not_negative a" and b: "f64_gt0 b"
  from b have "b \<noteq> Finite 0" by (cases b) auto
  moreover from b have "not_negative b" by (simp add: f64_gt0_ge0 f64_ge0_not_negative)
  ultimately show ?thesis
    using a by (simp add: f64_truediv_def overflow_or_def f64_div_not_negative)
qed

lemma fl_1000: "fl 1000 = Finite 1000"
  by (simp add: fl_eval)

lemma fl_LEN_STEP:
  "fl Running_LEN_STEP = Finite (5854679515581645 / 2 ^ 53)"
  "fl SportsWalking_LEN_STEP = Finite (5854679515581645 / 2 ^ 53)"
  "fl Swimming_LEN_STEP = Finite (1553741871442821 / 2 ^ 50)"
  by (simp_all add: class_constants fl_eval)

lemma class_constants_not_negative:
  "not_negative (fl Running_CALORIES_MEAN_SPEED_MULTIPLIER)"
  "not_negative (fl Running_CALORIES_MEAN_SPEED_SHIFT)"
  "not_negative (fl SportsWalking_CALORIES_WEIGHT_MULTIPLIER)"
  "not_negative (fl SportsWalking_CALORIES_SPEED_HEIGHT_MULTIPLIER)"
  "not_negative (fl Swimming_CALORIES_SWIM_MULTIPLIER)"
  "not_negative (fl Swimming_CALORIES_SWIM_SHIFT)"
  "not_negative (fl 60)"
  by (simp_all add: fl_not_negative class_constants)

lemmas not_negative_intros = overflow_or_Inr f64_mul_not_negative f64_add_not_negative
  class_constants_not_negative

lemma distance_ge0:
  "num_ge0 a \<Longrightarrow> 0 < c \<Longrightarrow>
   overflow_or f64_ge0
     (bind_err (to_float a) (\<lambda>x. f64_truediv (f64_mul x (Finite c)) (Finite 1000)))"
  by (rule overflow_or_bind [OF to_float_ge0]) (simp_all add: f64_truediv_ge0 f64_mul_ge0)

lemma get_distance64_ge0:
  "num_ge0 (action64 t) \<Longrightarrow> overflow_or f64_ge0 (get_distance64 t)"
  by (cases t) (simp_all add: fl_1000 fl_LEN_STEP distance_ge0)

lemma get_mean_speed64_eq:
  "get_mean_speed64 t =
     bind_err (get_distance64 t) (\<lambda>dst.
     bind_err (to_float (duration64 t)) (\<lambda>y. f64_truediv dst y))"
  by (cases t) simp_all

lemma get_mean_speed64_not_negative:
  assumes "num_ge0 (action64 t)" and "num_gt0 (duration64 t)"
  shows "overflow_or not_negative (get_mean_speed64 t)"
  unfolding get_mean_speed64_eq
proof (rule overflow_or_bind [OF get_distance64_ge0 [OF assms(1)]])
  fix dst assume "f64_ge0 dst"
  then have "not_negative dst" by (rule f64_ge0_not_negative)
  then show "overflow_or not_negative
      (bind_err (to_float (duration64 t)) (f64_truediv dst))"
    by (intro overflow_or_bind [OF to_float_gt0 [OF assms(2)]] f64_truediv_not_negative)
qed

lemma get_spent_calories64_not_negative:
  assumes a: "num_ge0 (action64 t)" and w: "num_ge0 (weight64 t)"
    and d: "num_gt0 (duration64 t)"
    and h: "\<And>a d w h. t = SportsWalking64 a d w h \<Longrightarrow> num_gt0 h"
  shows "overflow_or not_negative (get_spent_calories64 t)"
proof (cases t)
  case (Running64 a' d' w')
  with w d have w': "num_ge0 w'" and d': "num_gt0 d'" by simp_all
  show ?thesis
    unfolding Running64 get_spent_calories64.simps
    apply (rule overflow_or_bind [OF get_mean_speed64_not_negative [OF a d, unfolded Running64]])
    apply (rule overflow_or_bind [OF to_float_not_negative [OF w']])
    apply (rule overflow_or_bind [OF to_float_pos_not_negative [OF d']])
    apply (intro not_negative_intros; assumption)
    done
next
  case (SportsWalking64 a' d' w' h')
  with w d h have w': "num_ge0 w'" and d': "num_gt0 d'" and h': "num_gt0 h'" by simp_all
  show ?thesis
    unfolding SportsWalking64 get_spent_calories64.simps
    apply (rule overflow_or_bind
        [OF get_mean_speed64_not_negative [OF a d, unfolded SportsWalking64]])
    apply (rule overflow_or_bind [OF to_float_not_negative [OF w']])
    apply (rule overflow_or_bind [OF f64_square_not_negative])
    apply (rule overflow_or_bind [OF to_float_gt0 [OF h']])
    apply (rule overflow_or_bind [OF f64_truediv_not_negative]; assumption?)
    apply (rule overflow_or_bind [OF to_float_pos_not_negative [OF d']])
    apply (intro not_negative_intros; assumption)
    done
next
  case (Swimming64 a' d' w' pl pc)
  with w d have w': "num_ge0 w'" and d': "num_gt0 d'" by simp_all
  show ?thesis
    unfolding Swimming64 get_spent_calories64.simps
    apply (rule overflow_or_bind [OF get_mean_speed64_not_negative [OF a d, unfolded Swimming64]])
    apply (rule overflow_or_bind [OF to_float_not_negative [OF w']])
    apply (rule overflow_or_bind [OF to_float_pos_not_negative [OF d']])
    apply (intro not_negative_intros; assumption)
    done
qed

subsection \<open>Values at concrete sessions\<close>

text \<open>
  The three packages of \<open>main\<close>, then sessions whose arithmetic leaves the range of
  \<open>float\<close>: the durations are the literals \<open>1e-320\<close> and \<open>1e-200\<close>.
\<close>

lemma fl_small_ints:
  "fl 0 = Finite 0" "fl 1 = Finite 1" "fl 2 = Finite 2" "fl 18 = Finite 18"
  "fl 60 = Finite 60" "fl 75 = Finite 75" "fl 80 = Finite 80" "fl 180 = Finite 180"
  "fl 720 = Finite 720" "fl 9000 = Finite 9000" "fl 15000 = Finite 15000"
  by (simp_all add: fl_eval)

lemma fl_class_constants:
  "fl Running_CALORIES_MEAN_SPEED_MULTIPLIER = Finite 18"
  "fl Running_CALORIES_MEAN_SPEED_SHIFT = Finite (2015360833248297 / 2 ^ 50)"
  "fl SportsWalking_CALORIES_WEIGHT_MULTIPLIER = Finite (1261007895663739 / 2 ^ 55)"
  "fl SportsWalking_CALORIES_SPEED_HEIGHT_MULTIPLIER = Finite (8358680908399641 / 2 ^ 58)"
  "fl Swimming_CALORIES_SWIM_MULTIPLIER = Finite (2476979795053773 / 2 ^ 51)"
  "fl Swimming_CALORIES_SWIM_SHIFT = Finite 2"
  by (simp_all add: class_constants fl_eval)

lemmas f64_eval = bind_err_def f64_truediv_def fl_small_ints fl_class_constants
  fl_LEN_STEP fl_1000 inf_with_sign_def

lemma run_distance64:
  "get_distance64 (Running64 (PyInt 15000) d w) = Inr (Finite 9.75)"
  by (simp add: f64_eval) (simp add: fl_eval)

lemma run_calories64:
  "get_spent_calories64 (Running64 (PyInt 15000) (PyInt 1) (PyInt 75)) =
     Inr (Finite 13296.75)"
  unfolding get_spent_calories64.simps get_mean_speed64.simps run_distance64
  by (simp add: f64_eval) (simp add: fl_eval)

lemma walk_distance64:
  "get_distance64 (SportsWalking64 (PyInt 9000) d w h) =
     Inr (Finite (3293257227514675 / 2 ^ 49))"
  by (simp add: f64_eval) (simp add: fl_eval)

lemma walk_calories64:
  "get_spent_calories64 (SportsWalking64 (PyInt 9000) (PyInt 1) (PyInt 75) (PyInt 180)) =
     Inr (Finite (3207254527501665 / 2 ^ 44))"
  by (simp add: f64_eval) (simp add: fl_eval)

lemma swim_calories64:
  "get_spent_calories64
     (Swimming64 (PyInt 720) (PyInt 1) (PyInt 80) (PyInt 25) (PyInt 40)) =
     Inr (Finite (2946480056207147 / 2 ^ 43))"
  by (simp add: f64_eval) (simp add: fl_eval)

lemma fl_tiny: "fl (1 / 10 ^ 320) = Finite (2024 / 2 ^ 1074)"
  by (simp add: fl_eval)

lemma run_tiny_speed:
  "get_mean_speed64 (Running64 (PyInt 15000) (PyFloat (fl (1 / 10 ^ 320))) w) = Inr PInf"
  unfolding get_mean_speed64.simps run_distance64 fl_tiny
  by (simp add: f64_eval fl_overflow)

lemma run_tiny_calories:
  "get_spent_calories64
     (Running64 (PyInt 15000) (PyFloat (fl (1 / 10 ^ 320))) (PyFloat (Finite 0))) = Inr NaN"
  unfolding get_spent_calories64.simps run_tiny_speed
  by (simp add: f64_eval)

lemma fl_small: "fl (1 / 10 ^ 200) = Finite (1723641332219371 / 2 ^ 715)"
  by (simp add: fl_eval)

lemma walk_small_speed:
  "get_mean_speed64 (SportsWalking64 (PyInt 9000) (PyFloat (fl (1 / 10 ^ 200))) w h) =
     Inr (Finite (8604755377717207 * 2 ^ 614))"
  unfolding get_mean_speed64.simps walk_distance64 fl_small
  by (simp add: f64_eval) (simp add: fl_eval)

lemma walk_small_calories:
  "get_spent_calories64
     (SportsWalking64 (PyInt 9000) (PyFloat (fl (1 / 10 ^ 200))) (PyInt 75) (PyInt 180)) =
     Inl OverflowError"
proof -
  have "(2::real) ^ 1024 \<le> 8604755377717207 * 2 ^ 614 * (8604755377717207 * 2 ^ 614)"
    by simp
  then have "fl (8604755377717207 * 2 ^ 614 * (8604755377717207 * 2 ^ 614)) = PInf"
    by (rule fl_overflow)
  then show ?thesis
    unfolding get_spent_calories64.simps walk_small_speed
    by (simp add: f64_eval)
qed

lemma huge_action:
  "get_distance64 (Running64 (PyInt (10 ^ 400)) d w) = Inl OverflowError"
  by (simp add: bind_err_def fl_overflow)

section \<open>The claims\<close>

text \<open>
  C1 (as the code has it). \<open>read_package("RUN", [15000, 1, 75])\<close> returns the \<open>Running\<close>
  session with these fields, and its summary has the fields, in this order and with three
  decimals, \<open>Running\<close>, \<open>1.000\<close>, \<open>9.750\<close>, \<open>9.750\<close> and \<open>13296.750\<close>: the calories are
  \<open>(18 * 9.75 + 1.79) * 75 * 1 = 13296.75\<close>.
\<close>

theorem C1_run_summary:
  "read_package (ascii ''RUN'') [15000, 1, 75] = Inr (Running 15000 1 75) \<and>
   get_spent_calories (Running 15000 1 75) = Inr 13296.75 \<and>
   bind_err (read_package (ascii ''RUN'') [15000, 1, 75]) show_training_info =
     Inr (summary_line (ascii ''Running'') (ascii ''1.000'') (ascii ''9.750'')
            (ascii ''9.750'') (ascii ''13296.750''))"
proof -
  have "get_spent_calories (Running 15000 1 75) = Inr 13296.75"
    by (simp add: bind_err_def truediv_def class_constants)
  with read_package_run [of 15000 1 75] run_summary show ?thesis
    by (simp only: simp_thms)
qed

text \<open>
  C1 as the spec states it fails: the summary of that session is neither the spec's
  English text with \<open>Calories burned: 698.437\<close> nor the module's own line with the calories
  field \<open>698.437\<close>.
\<close>

theorem C1_run_summary_counterexample:
  "bind_err (read_package (ascii ''RUN'') [15000, 1, 75]) show_training_info \<noteq>
     Inr (spec_summary_line (ascii ''Running'') (ascii ''1.000'') (ascii ''9.750'')
            (ascii ''9.750'') (ascii ''698.437'')) \<and>
   bind_err (read_package (ascii ''RUN'') [15000, 1, 75]) show_training_info \<noteq>
     Inr (summary_line (ascii ''Running'') (ascii ''1.000'') (ascii ''9.750'')
            (ascii ''9.750'') (ascii ''698.437''))"
  unfolding run_summary
  by (simp add: summary_line_def spec_summary_line_def ascii_def label_type_def)

text \<open>
  C2. The distance of a session is \<open>action * 0.65 / 1000\<close> for \<open>Running\<close> and
  \<open>SportsWalking\<close> and \<open>action * 1.38 / 1000\<close> for \<open>Swimming\<close>, for every action count
  (integer or not) and whatever the other fields are.
\<close>

theorem C2_get_distance:
  "get_distance (Running a d w) = a * 0.65 / 1000 \<and>
   get_distance (SportsWalking a d w h) = a * 0.65 / 1000 \<and>
   get_distance (Swimming a d w pl pc) = a * 1.38 / 1000"
  by (simp add: class_constants)

text \<open>
  C3. For a session of any of the three classes whose duration is not zero,
  \<open>get_mean_speed()\<close> returns \<open>get_distance() / duration\<close>.
\<close>

theorem C3_mean_speed:
  "duration t \<noteq> 0 \<Longrightarrow> get_mean_speed t = Inr (get_distance t / duration t)"
  by (cases t) (simp_all add: truediv_def)

theorem C3_mean_speed_witness:
  "duration (Running 15000 1 75) \<noteq> 0 \<and>
   get_mean_speed (Running 15000 1 75) = Inr 9.75 \<and>
   duration (SportsWalking 9000 2 75 180) \<noteq> 0 \<and>
   get_mean_speed (SportsWalking 9000 2 75 180) = Inr 2.925 \<and>
   duration (Swimming 720 1 80 25 40) \<noteq> 0 \<and>
   get_mean_speed (Swimming 720 1 80 25 40) = Inr 0.9936"
  using C3_mean_speed [of "Running 15000 1 75"]
    C3_mean_speed [of "SportsWalking 9000 2 75 180"]
    C3_mean_speed [of "Swimming 720 1 80 25 40"]
  by (simp add: class_constants)

text \<open>
  C4. For every \<open>Running\<close> session, \<open>get_spent_calories()\<close> is
  \<open>(18 * mean_speed + 1.79) * weight * duration\<close> at the value \<open>mean_speed\<close> that
  \<open>get_mean_speed()\<close> returns; when \<open>get_mean_speed()\<close> raises (a zero duration), the same
  exception leaves \<open>get_spent_calories()\<close>.
\<close>

theorem C4_running_calories:
  "get_spent_calories (Running a d w) =
     (case get_mean_speed (Running a d w) of
        Inl e \<Rightarrow> Inl e
      | Inr mean_speed \<Rightarrow> Inr ((18 * mean_speed + 1.79) * w * d))"
  by (cases "d = 0") (simp_all add: truediv_def bind_err_def class_constants)

text \<open>
  C5. For every \<open>SportsWalking\<close> session whose height is not zero,
  \<open>get_spent_calories()\<close> is
  \<open>(0.035 * weight + (mean_speed ** 2 / height) * 0.029 * weight) * duration * 60\<close> at the
  value \<open>mean_speed\<close> that \<open>get_mean_speed()\<close> returns; when \<open>get_mean_speed()\<close> raises, the
  same exception leaves \<open>get_spent_calories()\<close>.
\<close>

theorem C5_walking_calories:
  "h \<noteq> 0 \<Longrightarrow>
   get_spent_calories (SportsWalking a d w h) =
     (case get_mean_speed (SportsWalking a d w h) of
        Inl e \<Rightarrow> Inl e
      | Inr mean_speed \<Rightarrow>
          Inr ((0.035 * w + (mean_speed ^ 2 / h) * 0.029 * w) * d * 60))"
  by (simp add: bind_err_def truediv_def class_constants split: sum.splits)

theorem C5_walking_calories_witness:
  "(180::real) \<noteq> 0 \<and>
   get_spent_calories (SportsWalking 9000 1 75 180) = Inr 182.3113125"
  using C5_walking_calories [of 180 9000 1 75]
  by (simp add: truediv_def class_constants power2_eq_square)

text \<open>
  C6. For every \<open>Swimming\<close> session, \<open>get_spent_calories()\<close> is
  \<open>(mean_speed + 1.1) * 2 * weight * duration\<close> at the value \<open>mean_speed\<close> that
  \<open>get_mean_speed()\<close> returns; when \<open>get_mean_speed()\<close> raises, the same exception leaves
  \<open>get_spent_calories()\<close>.
\<close>

theorem C6_swimming_calories:
  "get_spent_calories (Swimming a d w pl pc) =
     (case get_mean_speed (Swimming a d w pl pc) of
        Inl e \<Rightarrow> Inl e
      | Inr mean_speed \<Rightarrow> Inr ((mean_speed + 1.1) * 2 * w * d))"
  by (cases "d = 0") (simp_all add: truediv_def bind_err_def class_constants)

text \<open>
  C7 (as the code has it). With the code \<open>RUN\<close>, \<open>WLK\<close> or \<open>SWM\<close> and a list of three,
  four or five values, \<open>read_package\<close> returns the \<open>Running\<close>, \<open>SportsWalking\<close> or
  \<open>Swimming\<close> session whose fields are the values in order. With any other code it raises
  \<open>ValueError\<close> with one fixed message, whatever the code and the list are.
\<close>

theorem C7_read_package:
  "read_package (ascii ''RUN'') [a, d, w] = Inr (Running a d w) \<and>
   read_package (ascii ''WLK'') [a, d, w, h] = Inr (SportsWalking a d w h) \<and>
   read_package (ascii ''SWM'') [a, d, w, pl, pc] = Inr (Swimming a d w pl pc) \<and>
   (wt \<notin> {ascii ''RUN'', ascii ''WLK'', ascii ''SWM''} \<longrightarrow>
      read_package wt data = Inl (ValueError unknown_type_message))"
  by (simp add: read_package_def workout_types_eval workout_types_None)

theorem C7_read_package_witness:
  "ascii ''XYZ'' \<notin> {ascii ''RUN'', ascii ''WLK'', ascii ''SWM''} \<and>
   read_package (ascii ''XYZ'') [1, 1, 1] = Inl (ValueError unknown_type_message)"
  using C7_read_package [of 0 0 0 0 0 0 "ascii ''XYZ''" "[1, 1, 1]"]
  by (simp add: ascii_def)

text \<open>
  C7 as the spec states it fails: the exception for the code \<open>XYZ\<close> does not carry
  \<open>XYZ\<close>, and it is the very exception raised for the code \<open>ABC\<close>.
\<close>

theorem C7_read_package_counterexample:
  "read_package (ascii ''XYZ'') [1, 1, 1] \<noteq> Inl (ValueError (ascii ''XYZ'')) \<and>
   read_package (ascii ''XYZ'') [1, 1, 1] = read_package (ascii ''ABC'') [1, 1, 1]"
  by (simp add: read_package_def workout_types_def ascii_def unknown_type_message_def)

text \<open>
  C8. Two \<open>Swimming\<close> sessions with the same action, duration and weight have the same
  \<open>get_distance()\<close> and the same \<open>get_mean_speed()\<close> (value or exception), whatever their
  \<open>pool_length\<close> and \<open>pool_count\<close> are; so have a session and the one with the two values
  swapped.
\<close>

theorem C8_swimming_pool_invariance:
  "get_distance (Swimming a d w pl pc) = get_distance (Swimming a d w pl' pc') \<and>
   get_mean_speed (Swimming a d w pl pc) = get_mean_speed (Swimming a d w pl' pc') \<and>
   get_distance (Swimming a d w pl pc) = get_distance (Swimming a d w pc pl) \<and>
   get_mean_speed (Swimming a d w pl pc) = get_mean_speed (Swimming a d w pc pl)"
  by simp

text \<open>
  C9. With the code \<open>RUN\<close>, \<open>WLK\<close> or \<open>SWM\<close> and a list whose length is not 3, 4 or 5
  respectively, \<open>read_package\<close> raises \<open>TypeError\<close> and returns no session; \<open>TypeError\<close>
  is neither the \<open>ValueError\<close> of an unknown code nor \<open>ZeroDivisionError\<close>.
\<close>

theorem C9_arity_mismatch:
  "(length data \<noteq> 3 \<longrightarrow> read_package (ascii ''RUN'') data = Inl TypeError) \<and>
   (length data \<noteq> 4 \<longrightarrow> read_package (ascii ''WLK'') data = Inl TypeError) \<and>
   (length data \<noteq> 5 \<longrightarrow> read_package (ascii ''SWM'') data = Inl TypeError) \<and>
   TypeError \<noteq> ValueError msg \<and> TypeError \<noteq> ZeroDivisionError"
  by (simp add: read_package_def workout_types_eval Running_init_arity
      SportsWalking_init_arity Swimming_init_arity)

theorem C9_arity_mismatch_witness:
  "length [720, 1, 80, 25 :: real] \<noteq> 3 \<and>
   read_package (ascii ''RUN'') [720, 1, 80, 25] = Inl TypeError \<and>
   length [9000, 1, 75 :: real] \<noteq> 4 \<and>
   read_package (ascii ''WLK'') [9000, 1, 75] = Inl TypeError \<and>
   length ([] :: real list) \<noteq> 5 \<and>
   read_package (ascii ''SWM'') [] = Inl TypeError"
  using C9_arity_mismatch [of "[720, 1, 80, 25]"] C9_arity_mismatch [of "[9000, 1, 75]"]
    C9_arity_mismatch [of "[]"]
  by simp

text \<open>
  C10 (as the code has it). For a session of any class with \<open>action >= 0\<close>,
  \<open>weight >= 0\<close> and \<open>duration > 0\<close>, and \<open>height > 0\<close> when it is a \<open>SportsWalking\<close>
  session, no method returns a negative value and none raises \<open>ZeroDivisionError\<close>:
  \<open>get_distance()\<close> returns a nonnegative value (possibly \<open>inf\<close>) or raises
  \<open>OverflowError\<close>; \<open>get_mean_speed()\<close> and \<open>get_spent_calories()\<close> return a nonnegative
  value (possibly \<open>inf\<close>) or NaN, or raise \<open>OverflowError\<close>.
\<close>

theorem C10_never_negative:
  assumes "num_ge0 (action64 t)" and "num_ge0 (weight64 t)" and "num_gt0 (duration64 t)"
    and "\<And>a d w h. t = SportsWalking64 a d w h \<Longrightarrow> num_gt0 h"
  shows "overflow_or f64_ge0 (get_distance64 t) \<and>
    overflow_or not_negative (get_mean_speed64 t) \<and>
    overflow_or not_negative (get_spent_calories64 t)"
  using assms
  by (simp add: get_distance64_ge0 get_mean_speed64_not_negative
      get_spent_calories64_not_negative)

theorem C10_never_negative_witness:
  "num_ge0 (action64 (Running64 (PyInt 15000) (PyInt 1) (PyInt 75))) \<and>
   num_ge0 (weight64 (Running64 (PyInt 15000) (PyInt 1) (PyInt 75))) \<and>
   num_gt0 (duration64 (Running64 (PyInt 15000) (PyInt 1) (PyInt 75))) \<and>
   overflow_or f64_ge0 (get_distance64 (Running64 (PyInt 15000) (PyInt 1) (PyInt 75))) \<and>
   overflow_or not_negative
     (get_mean_speed64 (Running64 (PyInt 15000) (PyInt 1) (PyInt 75))) \<and>
   overflow_or not_negative
     (get_spent_calories64 (Running64 (PyInt 15000) (PyInt 1) (PyInt 75))) \<and>
   get_spent_calories64 (Running64 (PyInt 15000) (PyInt 1) (PyInt 75)) =
     Inr (Finite 13296.75) \<and>
   num_ge0 (action64 (SportsWalking64 (PyInt 9000) (PyInt 1) (PyInt 75) (PyInt 180))) \<and>
   num_ge0 (weight64 (SportsWalking64 (PyInt 9000) (PyInt 1) (PyInt 75) (PyInt 180))) \<and>
   num_gt0 (duration64 (SportsWalking64 (PyInt 9000) (PyInt 1) (PyInt 75) (PyInt 180))) \<and>
   num_gt0 (height64 (SportsWalking64 (PyInt 9000) (PyInt 1) (PyInt 75) (PyInt 180))) \<and>
   overflow_or not_negative
     (get_spent_calories64 (SportsWalking64 (PyInt 9000) (PyInt 1) (PyInt 75) (PyInt 180))) \<and>
   get_spent_calories64 (SportsWalking64 (PyInt 9000) (PyInt 1) (PyInt 75) (PyInt 180)) =
     Inr (Finite (3207254527501665 / 2 ^ 44))"
  using C10_never_negative [of "Running64 (PyInt 15000) (PyInt 1) (PyInt 75)"]
    C10_never_negative [of "SportsWalking64 (PyInt 9000) (PyInt 1) (PyInt 75) (PyInt 180)"]
    run_calories64 walk_calories64
  by simp

text \<open>
  C10 as it was stated fails. \<open>Running(15000, 1e-320, 0.0)\<close> meets every condition, its
  mean speed overflows to \<open>inf\<close> and its calories are \<open>inf * 0.0\<close>, NaN, of which
  \<open>>= 0\<close> is false. \<open>SportsWalking(9000, 1e-200, 75, 180)\<close> meets every condition and
  \<open>mean_speed ** 2\<close> raises \<open>OverflowError\<close>; so does \<open>get_distance()\<close> for the action
  count \<open>10 ** 400\<close>.
\<close>

theorem C10_nonnegative_counterexample:
  "num_ge0 (PyInt 15000) \<and> num_gt0 (PyFloat (fl (1 / 10 ^ 320))) \<and>
   num_ge0 (PyFloat (Finite 0)) \<and>
   get_mean_speed64
     (Running64 (PyInt 15000) (PyFloat (fl (1 / 10 ^ 320))) (PyFloat (Finite 0))) =
     Inr PInf \<and>
   get_spent_calories64
     (Running64 (PyInt 15000) (PyFloat (fl (1 / 10 ^ 320))) (PyFloat (Finite 0))) =
     Inr NaN \<and>
   \<not> f64_ge0 NaN \<and>
   num_ge0 (PyInt 9000) \<and> num_gt0 (PyFloat (fl (1 / 10 ^ 200))) \<and>
   num_ge0 (PyInt 75) \<and> num_gt0 (PyInt 180) \<and>
   get_spent_calories64
     (SportsWalking64 (PyInt 9000) (PyFloat (fl (1 / 10 ^ 200))) (PyInt 75) (PyInt 180)) =
     Inl OverflowError \<and>
   num_ge0 (PyInt (10 ^ 400)) \<and>
   get_distance64 (Running64 (PyInt (10 ^ 400)) (PyInt 1) (PyInt 75)) = Inl OverflowError"
proof -
  have tiny: "num_gt0 (PyFloat (fl (1 / 10 ^ 320)))"
    unfolding fl_tiny by simp
  have small: "num_gt0 (PyFloat (fl (1 / 10 ^ 200)))"
    unfolding fl_small by simp
  have huge: "num_ge0 (PyInt (10 ^ 400))"
    by simp
  show ?thesis
    by (intro conjI tiny small huge run_tiny_speed run_tiny_calories walk_small_calories
        huge_action) simp_all
qed

end
